theory Spec2Isabelle
  imports Main
begin

section \<open>The command line front end of pymcuprog\<close>

text \<open>
  A shallow embedding of \<^verbatim>\<open>pymcuprog/pymcuprog.py\<close>: the two literal parsers
  \<^verbatim>\<open>_parse_literal\<close> and \<^verbatim>\<open>_parse_direct\<close>, the logging bootstrap
  \<^verbatim>\<open>setup_logging\<close>, and the two places of \<^verbatim>\<open>main\<close> that carry logic: the
  declaration of the positional \<^verbatim>\<open>action\<close> argument and the call of the engine.
  A leading underscore is not an Isabelle name, so the parsers are called
  \<open>parse_literal\<close> and \<open>parse_direct\<close> here.
\<close>

subsection \<open>Python's \<^verbatim>\<open>int(x, 0)\<close>\<close>

text \<open>
  The parsers call the builtin \<^verbatim>\<open>int(x, 0)\<close> of Python 3 on a string. It is modelled
  as CPython's \<^verbatim>\<open>PyLong_FromString\<close> reads a string with base 0: white space, a sign,
  a base prefix, digits with single underscores between them, white space. A
  \<open>char\<close> stands for a code point below 256; of these the white space of
  \<^verbatim>\<open>int\<close> is tab, line feed, vertical tab, form feed, carriage return, space, and
  the two Latin-1 spaces 0x85 and 0xA0. The limit on the number of decimal digits
  that newer interpreters impose (4300 by default) is not modelled.
\<close>

definition py_isspace :: "char \<Rightarrow> bool" where
  "py_isspace c =
     (c = CHR 0x09 \<or> c = CHR 0x0A \<or> c = CHR 0x0B \<or> c = CHR 0x0C \<or> c = CHR 0x0D
      \<or> c = CHR 0x20 \<or> c = CHR 0x85 \<or> c = CHR 0xA0)"

definition digit_value :: "char \<Rightarrow> nat" where
  \<comment> \<open>the table \<^verbatim>\<open>_PyLong_DigitValue\<close>: 37 for a character that is no digit in any base\<close>
  "digit_value c =
     (let n = (of_char c :: nat) in
      if 48 \<le> n \<and> n \<le> 57 then n - 48
      else if 97 \<le> n \<and> n \<le> 122 then n - 87
      else if 65 \<le> n \<and> n \<le> 90 then n - 55
      else 37)"

fun scan_digits :: "nat \<Rightarrow> char \<Rightarrow> string \<Rightarrow> nat list \<Rightarrow> (nat list \<times> string) option" where
  \<comment> \<open>the digit loop: base, previous character, input, digits read so far;
      two underscores in a row and an underscore at the end are refused\<close>
  "scan_digits base prev [] acc =
     (if prev = CHR ''_'' then None else Some (acc, []))"
| "scan_digits base prev (c # cs) acc =
     (if c = CHR ''_'' then
        (if prev = CHR ''_'' then None else scan_digits base c cs acc)
      else if digit_value c < base then scan_digits base c cs (acc @ [digit_value c])
      else if prev = CHR ''_'' then None
      else Some (acc, c # cs))"

definition digits_value :: "nat \<Rightarrow> nat list \<Rightarrow> int" where
  "digits_value base ds = foldl (\<lambda>v d. v * int base + int d) 0 ds"

definition skip_sign :: "string \<Rightarrow> bool \<times> string" where
  "skip_sign s =
     (case s of
        [] \<Rightarrow> (False, [])
      | c # r \<Rightarrow>
          if c = CHR ''+'' then (False, r)
          else if c = CHR ''-'' then (True, r)
          else (False, s))"

definition detect_base :: "string \<Rightarrow> nat \<times> bool \<times> bool" where
  \<comment> \<open>base 0: the base, whether a two character prefix is present, and whether
      only a zero is allowed (a leading 0 with no prefix)\<close>
  "detect_base s =
     (case s of
        [] \<Rightarrow> (10, False, False)
      | c0 # r \<Rightarrow>
          if c0 \<noteq> CHR ''0'' then (10, False, False)
          else (case r of
                  [] \<Rightarrow> (10, False, True)
                | c1 # _ \<Rightarrow>
                    if c1 = CHR ''x'' \<or> c1 = CHR ''X'' then (16, True, False)
                    else if c1 = CHR ''o'' \<or> c1 = CHR ''O'' then (8, True, False)
                    else if c1 = CHR ''b'' \<or> c1 = CHR ''B'' then (2, True, False)
                    else (10, False, True)))"

definition skip_prefix :: "bool \<Rightarrow> string \<Rightarrow> string" where
  \<comment> \<open>past the prefix, and past one underscore right after it\<close>
  "skip_prefix has_prefix s =
     (if has_prefix then
        (case drop 2 s of
           [] \<Rightarrow> []
         | c # r \<Rightarrow> if c = CHR ''_'' then r else c # r)
      else s)"

definition py_int0 :: "string \<Rightarrow> int option" where
  \<comment> \<open>\<^verbatim>\<open>int(x, 0)\<close>; \<open>None\<close> is the \<^verbatim>\<open>ValueError\<close>\<close>
  "py_int0 x =
     (case skip_sign (dropWhile py_isspace x) of
        (neg, s) \<Rightarrow>
          (case detect_base s of
             (base, has_prefix, zero_only) \<Rightarrow>
               (let body = skip_prefix has_prefix s in
                if take 1 body = ''_'' then None
                else
                  (case scan_digits base (CHR 0x00) body [] of
                     None \<Rightarrow> None
                   | Some (ds, rest) \<Rightarrow>
                       if zero_only \<and> digits_value base ds \<noteq> 0 then None
                       else if ds = [] then None
                       else if dropWhile py_isspace rest \<noteq> [] then None
                       else Some (if neg then - digits_value base ds
                                  else digits_value base ds)))))"

subsection \<open>Python's \<^verbatim>\<open>str.split\<close> with a separator\<close>

fun py_split :: "char \<Rightarrow> string \<Rightarrow> string list" where
  "py_split sep [] = [[]]"
| "py_split sep (c # cs) =
     (if c = sep then [] # py_split sep cs
      else (case py_split sep cs of
              [] \<Rightarrow> [[c]]
            | w # ws \<Rightarrow> (c # w) # ws))"

subsection \<open>The literal parsers\<close>

text \<open>
  What a parser returns: a number, a list of numbers, or Python's \<^verbatim>\<open>None\<close>.
  The builtin \<^verbatim>\<open>float\<close> is a parameter \<open>pyfloat\<close> of the parsers, with
  \<open>None\<close> for its \<^verbatim>\<open>ValueError\<close>; \<open>'f\<close> is the type of floating point
  values. Both builtins raise nothing but \<^verbatim>\<open>ValueError\<close> on a string.
  The type \<open>error\<close> lists the exceptions the module meets: the ones it names,
  the ones Python raises on a value of the wrong kind, and \<open>OtherError\<close> with the
  class name for any other.
\<close>

datatype error =
    ValueError
  | ScannerError
  | KeyError string
  | TypeError
  | AttributeError
  | OtherError string

datatype 'f number = PyInt int | PyFloat 'f

datatype 'f literal_value = Scalar "'f number" | PyList "'f number list" | PyNone

definition parse_literal :: "(string \<Rightarrow> 'f option) \<Rightarrow> string \<Rightarrow> error + 'f literal_value" where
  "parse_literal pyfloat literal =
     (if CHR '':'' \<in> set literal then
        (case those (map py_int0 (take 2 (py_split CHR '':'' literal))) of
           None \<Rightarrow> Inl ValueError
         | Some ns \<Rightarrow> Inr (PyList (map PyInt ns)))
      else
        (case py_int0 literal of
           Some n \<Rightarrow> Inr (Scalar (PyInt n))
         | None \<Rightarrow>
             (case pyfloat literal of
                Some f \<Rightarrow> Inr (Scalar (PyFloat f))
              | None \<Rightarrow> Inl ValueError)))"

definition parse_direct :: "(string \<Rightarrow> 'f option) \<Rightarrow> string \<Rightarrow> error + 'f literal_value" where
  "parse_direct pyfloat literal =
     (if CHR '':'' \<in> set literal then
        (case those (map py_int0 (take 2 (py_split CHR '':'' literal))) of
           Some ns \<Rightarrow> Inr (PyList (map PyInt ns))
         | None \<Rightarrow>
             (case those (map pyfloat (take 2 (py_split CHR '':'' literal))) of
                Some fs \<Rightarrow> Inr (PyList (map PyFloat fs))
              | None \<Rightarrow> Inl ValueError))
      else Inr PyNone)"

text \<open>
  An instance of the parameter for evaluation: plain decimal numerals
  \<^verbatim>\<open>digits\<close> and \<^verbatim>\<open>digits.digits\<close>, valued as the integer of all the digits
  and the number of digits after the point (\<^verbatim>\<open>3.5\<close> is 35 with one decimal,
  \<^verbatim>\<open>4\<close> is 4 with none).
\<close>

definition is_decimal_digit :: "char \<Rightarrow> bool" where
  "is_decimal_digit c = (digit_value c < 10)"

definition fraction_float :: "string \<Rightarrow> (int \<times> nat) option" where
  "fraction_float s =
     (let ip = takeWhile is_decimal_digit s; r = dropWhile is_decimal_digit s in
      case r of
        [] \<Rightarrow> if ip = [] then None else Some (digits_value 10 (map digit_value ip), 0)
      | c # fp \<Rightarrow>
          if c = CHR ''.'' \<and> ip \<noteq> [] \<and> fp \<noteq> [] \<and> list_all is_decimal_digit fp
          then Some (digits_value 10 (map digit_value (ip @ fp)), length fp)
          else None)"

subsection \<open>The logging bootstrap\<close>

text \<open>
  A loaded YAML document, as the Python values \<^verbatim>\<open>yaml.safe_load\<close> builds: a
  mapping is a \<^verbatim>\<open>dict\<close>, kept as an association list in insertion order, with
  strings as keys. The same type holds the values the function stores into the
  document (a level as an integer, a joined path). Documents are trees: no two
  places share one object (no YAML alias).
\<close>

datatype yaml =
    YNull
  | YBool bool
  | YInt int
  | YStr string
  | YSeq "yaml list"
  | YMap "(string \<times> yaml) list"

definition subscript :: "yaml \<Rightarrow> string \<Rightarrow> error + yaml" where
  \<comment> \<open>\<^verbatim>\<open>v[k]\<close> with a string \<open>k\<close>\<close>
  "subscript v k =
     (case v of
        YMap m \<Rightarrow> (case map_of m k of None \<Rightarrow> Inl (KeyError k) | Some x \<Rightarrow> Inr x)
      | _ \<Rightarrow> Inl TypeError)"

definition dict_keys :: "yaml \<Rightarrow> error + string list" where
  \<comment> \<open>\<^verbatim>\<open>v.keys()\<close>\<close>
  "dict_keys v = (case v of YMap m \<Rightarrow> Inr (map fst m) | _ \<Rightarrow> Inl AttributeError)"

fun assign :: "string \<Rightarrow> yaml \<Rightarrow> (string \<times> yaml) list \<Rightarrow> (string \<times> yaml) list" where
  "assign k v [] = [(k, v)]"
| "assign k v (p # m) = (if fst p = k then (k, v) # m else p # assign k v m)"

definition setitem :: "yaml \<Rightarrow> string \<Rightarrow> yaml \<Rightarrow> error + yaml" where
  \<comment> \<open>\<^verbatim>\<open>v[k] = x\<close>: the value \<open>v\<close> after the assignment\<close>
  "setitem v k x = (case v of YMap m \<Rightarrow> Inr (YMap (assign k x m)) | _ \<Rightarrow> Inl TypeError)"

definition and_then :: "error + 'a \<Rightarrow> ('a \<Rightarrow> error + 'b) \<Rightarrow> error + 'b" where
  \<comment> \<open>one statement after another: an exception ends the sequence\<close>
  "and_then r f = (case r of Inl e \<Rightarrow> Inl e | Inr x \<Rightarrow> f x)"

fun for_each :: "'k list \<Rightarrow> ('k \<Rightarrow> 's \<Rightarrow> error + 's) \<Rightarrow> 's \<Rightarrow> error + 's" where
  \<comment> \<open>a \<^verbatim>\<open>for\<close> loop over a list, its body a state transformer\<close>
  "for_each [] body s = Inr s"
| "for_each (k # ks) body s =
     (case body k s of Inl e \<Rightarrow> Inl e | Inr s' \<Rightarrow> for_each ks body s')"

text \<open>
  What the function takes from its surroundings: the environment variable, the
  directory of the module, \<^verbatim>\<open>os.path.join\<close> and \<^verbatim>\<open>os.path.exists\<close>, what opening
  and loading the file at a path gives, the user log directory, what creating a
  directory gives, \<^verbatim>\<open>getattr(logging, name)\<close> (with \<open>Inl\<close> too for an attribute
  that is no number, which \<^verbatim>\<open>min\<close> refuses right after), and what
  \<^verbatim>\<open>dictConfig\<close> gives.
\<close>

record env =
  getenv :: "string \<Rightarrow> string option"
  module_dir :: string
  path_join :: "string \<Rightarrow> string \<Rightarrow> string"
  path_exists :: "string \<Rightarrow> bool"
  load_yaml :: "string \<Rightarrow> error + yaml"
  user_log_dir :: string
  mkdir :: "string \<Rightarrow> error option"
  getattr_logging :: "string \<Rightarrow> error + int"
  dictConfig :: "yaml \<Rightarrow> error option"

datatype config = DictConfig yaml | BasicConfig int

text \<open>
  What a call leaves behind: the exception that reaches the caller if any, the
  lines printed, the directories created, the logging configuration activated.
\<close>

record result =
  raised :: "error option"
  printed :: "string list"
  made_dirs :: "string list"
  active :: "config option"

definition join_filename :: "(string \<Rightarrow> string \<Rightarrow> string) \<Rightarrow> string \<Rightarrow> yaml \<Rightarrow> error + string" where
  \<comment> \<open>\<^verbatim>\<open>os.path.join(logdir, v)\<close> raises \<^verbatim>\<open>TypeError\<close> on what is no string\<close>
  "join_filename join logdir v = (case v of YStr f \<Rightarrow> Inr (join logdir f) | _ \<Rightarrow> Inl TypeError)"

definition rewrite_filename ::
  "(string \<Rightarrow> string \<Rightarrow> string) \<Rightarrow> string \<Rightarrow> string \<Rightarrow> yaml \<times> nat \<Rightarrow> error + yaml \<times> nat" where
  \<comment> \<open>the body of the first loop, on the handlers and \<^verbatim>\<open>num_file_handlers\<close>\<close>
  "rewrite_filename join logdir handler st =
     (case st of
        (handlers, num_file_handlers) \<Rightarrow>
          and_then (subscript handlers handler) (\<lambda>h.
          and_then (dict_keys h) (\<lambda>ks.
            if ''filename'' \<in> set ks then
              and_then (subscript h ''filename'') (\<lambda>fn.
              and_then (join_filename join logdir fn) (\<lambda>p.
              and_then (setitem h ''filename'' (YStr p)) (\<lambda>h'.
              and_then (setitem handlers handler h') (\<lambda>handlers'.
                Inr (handlers', num_file_handlers + 1)))))
            else Inr (handlers, num_file_handlers))))"

definition level_of :: "(string \<Rightarrow> error + int) \<Rightarrow> yaml \<Rightarrow> error + int" where
  \<comment> \<open>\<^verbatim>\<open>getattr(logging, v)\<close> raises \<^verbatim>\<open>TypeError\<close> on a name that is no string\<close>
  "level_of getattr v = (case v of YStr name \<Rightarrow> getattr name | _ \<Rightarrow> Inl TypeError)"

definition lower_to_handler ::
  "(string \<Rightarrow> error + int) \<Rightarrow> yaml \<Rightarrow> string \<Rightarrow> int \<Rightarrow> error + int" where
  \<comment> \<open>the body of the second loop, on \<^verbatim>\<open>most_verbose_logging\<close>\<close>
  "lower_to_handler getattr handlers handler most_verbose_logging =
     and_then (subscript handlers handler) (\<lambda>h.
     and_then (dict_keys h) (\<lambda>ks.
       if ''filename'' \<in> set ks then
         and_then (subscript h ''level'') (\<lambda>l.
         and_then (level_of getattr l) (\<lambda>level.
           Inr (min most_verbose_logging level)))
       else Inr most_verbose_logging))"

definition reconcile :: "env \<Rightarrow> int \<Rightarrow> yaml \<Rightarrow> yaml \<Rightarrow> error + yaml" where
  \<comment> \<open>lines 62 to 70: the console level, the most verbose level, the root level;
      \<open>handlers\<close> is \<^verbatim>\<open>configfile['handlers']\<close> after the first loop\<close>
  "reconcile e user_requested_level configfile handlers =
     and_then (subscript handlers ''console'') (\<lambda>console.
     and_then (setitem console ''level'' (YInt user_requested_level)) (\<lambda>console'.
     and_then (setitem handlers ''console'' console') (\<lambda>handlers'.
     and_then (subscript configfile ''root'') (\<lambda>root.
     and_then (subscript root ''level'') (\<lambda>l.
     and_then (level_of (getattr_logging e) l) (\<lambda>root_level.
     and_then (dict_keys handlers') (\<lambda>names.
     and_then (for_each names (lower_to_handler (getattr_logging e) handlers')
                 (min user_requested_level root_level)) (\<lambda>most_verbose_logging.
     and_then (setitem root ''level'' (YInt most_verbose_logging)) (\<lambda>root'.
     and_then (setitem configfile ''handlers'' handlers') (\<lambda>configfile'.
       setitem configfile' ''root'' root'))))))))))"

definition with_block :: "env \<Rightarrow> int \<Rightarrow> yaml \<Rightarrow> string list \<times> (error + yaml)" where
  \<comment> \<open>lines 46 to 70 on the loaded document: the directories created, and the
      exception raised or the document as it is handed to \<^verbatim>\<open>dictConfig\<close>\<close>
  "with_block e user_requested_level configfile =
     (let logdir = user_log_dir e in
      case and_then (subscript configfile ''handlers'') (\<lambda>handlers.
           and_then (dict_keys handlers) (\<lambda>names.
             for_each names (rewrite_filename (path_join e) logdir) (handlers, 0))) of
        Inl ex \<Rightarrow> ([], Inl ex)
      | Inr (handlers, num_file_handlers) \<Rightarrow>
          if num_file_handlers > 0 then
            (case mkdir e logdir of
               Some ex \<Rightarrow> ([], Inl ex)
             | None \<Rightarrow> ([logdir], reconcile e user_requested_level configfile handlers))
          else ([], reconcile e user_requested_level configfile handlers))"

definition quoted :: "string \<Rightarrow> string" where
  "quoted s = [CHR 0x27] @ s @ [CHR 0x27]"

definition basic_logging :: "string list \<Rightarrow> string list \<Rightarrow> int \<Rightarrow> result" where
  \<comment> \<open>lines 84 and 85, after the diagnostic \<open>msgs\<close>\<close>
  "basic_logging msgs dirs user_requested_level =
     \<lparr>raised = None,
      printed = msgs @ [''Reverting to basic logging.''],
      made_dirs = dirs,
      active = Some (BasicConfig user_requested_level)\<rparr>"

definition on_exception :: "string \<Rightarrow> string list \<Rightarrow> int \<Rightarrow> error \<Rightarrow> result" where
  \<comment> \<open>the two \<^verbatim>\<open>except\<close> clauses; any other exception leaves the function\<close>
  "on_exception path dirs user_requested_level ex =
     (case ex of
        ScannerError \<Rightarrow>
          basic_logging [''Error parsing logging config file '' @ quoted path] dirs user_requested_level
      | KeyError k \<Rightarrow>
          basic_logging [''Key '' @ quoted k @ '' not found in logging config file''] dirs
            user_requested_level
      | _ \<Rightarrow> \<lparr>raised = Some ex, printed = [], made_dirs = dirs, active = None\<rparr>)"

definition config_path :: "env \<Rightarrow> string \<Rightarrow> string \<Rightarrow> string" where
  \<comment> \<open>lines 35 to 40: an empty value of the variable counts as none\<close>
  "config_path e default_path env_key =
     (case getenv e env_key of
        None \<Rightarrow> path_join e (module_dir e) default_path
      | Some v \<Rightarrow> if v \<noteq> [] then v else path_join e (module_dir e) default_path)"

definition setup_logging :: "env \<Rightarrow> int \<Rightarrow> string \<Rightarrow> string \<Rightarrow> result" where
  "setup_logging e user_requested_level default_path env_key =
     (let path = config_path e default_path env_key in
      if path_exists e path then
        (case load_yaml e path of
           Inl ex \<Rightarrow> on_exception path [] user_requested_level ex
         | Inr configfile \<Rightarrow>
             (case with_block e user_requested_level configfile of
                (dirs, Inl ex) \<Rightarrow> on_exception path dirs user_requested_level ex
              | (dirs, Inr resolved) \<Rightarrow>
                  (case dictConfig e resolved of
                     Some ex \<Rightarrow> on_exception path dirs user_requested_level ex
                   | None \<Rightarrow>
                       \<lparr>raised = None, printed = [], made_dirs = dirs,
                        active = Some (DictConfig resolved)\<rparr>)))
      else
        basic_logging [''Unable to open logging config file '' @ quoted path] []
          user_requested_level)"

text \<open>Reading a resolved or a loaded document at a path of keys.\<close>

fun yaml_at :: "yaml \<Rightarrow> string list \<Rightarrow> yaml option" where
  "yaml_at v [] = Some v"
| "yaml_at v (k # ks) =
     (case v of
        YMap m \<Rightarrow> (case map_of m k of None \<Rightarrow> None | Some x \<Rightarrow> yaml_at x ks)
      | _ \<Rightarrow> None)"

definition is_file_handler :: "yaml \<Rightarrow> bool" where
  \<comment> \<open>a handler with a \<^verbatim>\<open>filename\<close> key\<close>
  "is_file_handler h = (case h of YMap m \<Rightarrow> ''filename'' \<in> set (map fst m) | _ \<Rightarrow> False)"

text \<open>
  What the first loop keeps of a handler: whether it has a file name, and its
  declared level.
\<close>

definition same_handler :: "yaml \<Rightarrow> yaml \<Rightarrow> bool" where
  "same_handler v v' =
     (is_file_handler v' = is_file_handler v \<and> subscript v' ''level'' = subscript v ''level'')"

text \<open>The level names of the module \<^verbatim>\<open>logging\<close>.\<close>

definition logging_levels :: "string \<Rightarrow> error + int" where
  "logging_levels name =
     (if name = ''CRITICAL'' \<or> name = ''FATAL'' then Inr 50
      else if name = ''ERROR'' then Inr 40
      else if name = ''WARNING'' \<or> name = ''WARN'' then Inr 30
      else if name = ''INFO'' then Inr 20
      else if name = ''DEBUG'' then Inr 10
      else if name = ''NOTSET'' then Inr 0
      else Inl AttributeError)"

text \<open>
  What \<^verbatim>\<open>logging.config.dictConfig\<close> checks of a document with the keys
  \<^verbatim>\<open>version\<close>, \<^verbatim>\<open>handlers\<close> and \<^verbatim>\<open>root\<close>: the version is there and is 1, every
  handler names its class and has a level that \<^verbatim>\<open>logging._checkLevel\<close> accepts (a
  number or a level name), and so has the root logger, whose handlers are among
  the configured ones. Every failure to configure a handler or the root leaves
  \<^verbatim>\<open>dictConfig\<close> as a \<^verbatim>\<open>ValueError\<close>. Of the handler classes, the stream handler and
  the file handler are known here; the keys of a handler other than its class,
  level, formatter and filters are the keyword arguments of the constructor of
  its class, which refuses the ones it does not have, and for the file handler
  the absence of a file name. Formatters, filters and named loggers are left
  out.
\<close>

definition check_level :: "yaml option \<Rightarrow> bool" where
  "check_level level =
     (case level of
        None \<Rightarrow> True
      | Some YNull \<Rightarrow> True
      | Some (YInt _) \<Rightarrow> True
      | Some (YBool _) \<Rightarrow> True
      | Some (YStr name) \<Rightarrow> (case logging_levels name of Inl _ \<Rightarrow> False | Inr _ \<Rightarrow> True)
      | Some _ \<Rightarrow> False)"

definition handler_kwargs :: "(string \<times> yaml) list \<Rightarrow> string list" where
  "handler_kwargs m =
     filter (\<lambda>k. k \<notin> set [''class'', ''level'', ''formatter'', ''filters'']) (map fst m)"

definition configure_handler :: "yaml \<Rightarrow> bool" where
  "configure_handler config =
     (case config of
        YMap m \<Rightarrow>
          (case map_of m ''class'' of
             Some (YStr cname) \<Rightarrow>
               ((cname = ''logging.StreamHandler'' \<and>
                 list_all (\<lambda>k. k = ''stream'') (handler_kwargs m)) \<or>
                (cname = ''logging.FileHandler'' \<and> ''filename'' \<in> set (handler_kwargs m) \<and>
                 list_all (\<lambda>k. k \<in> set [''filename'', ''mode'', ''encoding'', ''delay'', ''errors''])
                   (handler_kwargs m))) \<and>
               check_level (map_of m ''level'')
           | _ \<Rightarrow> False)
      | _ \<Rightarrow> False)"

definition configure_root :: "string list \<Rightarrow> yaml \<Rightarrow> bool" where
  "configure_root configured root =
     (case root of
        YNull \<Rightarrow> True
      | YMap m \<Rightarrow>
          check_level (map_of m ''level'') \<and>
          (case map_of m ''handlers'' of
             None \<Rightarrow> True
           | Some (YSeq hs) \<Rightarrow>
               list_all (\<lambda>h. case h of YStr name \<Rightarrow> name \<in> set configured | _ \<Rightarrow> False) hs
           | Some _ \<Rightarrow> False)
      | _ \<Rightarrow> False)"

definition logging_config_dictConfig :: "yaml \<Rightarrow> error option" where
  "logging_config_dictConfig config =
     (case config of
        YMap m \<Rightarrow>
          (case map_of m ''version'' of
             None \<Rightarrow> Some ValueError
           | Some version \<Rightarrow>
               if version \<noteq> YInt 1 \<and> version \<noteq> YBool True then Some ValueError
               else
                 (case map_of m ''handlers'' of
                    None \<Rightarrow>
                      if configure_root [] (case map_of m ''root'' of None \<Rightarrow> YNull | Some r \<Rightarrow> r)
                      then None else Some ValueError
                  | Some (YMap handlers) \<Rightarrow>
                      if list_all configure_handler (map snd handlers) \<and>
                         configure_root (map fst handlers)
                           (case map_of m ''root'' of None \<Rightarrow> YNull | Some r \<Rightarrow> r)
                      then None else Some ValueError
                  | Some _ \<Rightarrow> Some TypeError))
      | _ \<Rightarrow> Some TypeError)"

text \<open>
  Surroundings for evaluation: no environment variable, the shipped file
  present, and \<open>loaded\<close> for what loading it gives.
\<close>

definition shipped_env :: "error + yaml \<Rightarrow> env" where
  "shipped_env loaded =
     \<lparr>getenv = (\<lambda>_. None),
      module_dir = ''/app'',
      path_join = (\<lambda>a b. a @ ''/'' @ b),
      path_exists = (\<lambda>p. p = ''/app/logging.yaml''),
      load_yaml = (\<lambda>_. loaded),
      user_log_dir = ''/log'',
      mkdir = (\<lambda>_. None),
      getattr_logging = logging_levels,
      dictConfig = logging_config_dictConfig\<rparr>"

definition two_stream_handlers :: yaml where
  \<comment> \<open>a console handler, a second handler with no file name at \<^verbatim>\<open>DEBUG\<close>, the
      root at \<^verbatim>\<open>WARNING\<close>\<close>
  "two_stream_handlers =
     YMap [(''version'', YInt 1),
           (''handlers'',
              YMap [(''console'', YMap [(''class'', YStr ''logging.StreamHandler''),
                                         (''level'', YStr ''WARNING'')]),
                    (''stderr'', YMap [(''class'', YStr ''logging.StreamHandler''),
                                        (''level'', YStr ''DEBUG'')])]),
           (''root'', YMap [(''level'', YStr ''WARNING''),
                             (''handlers'', YSeq [YStr ''console'', YStr ''stderr''])])]"

definition scenario_d :: yaml where
  \<comment> \<open>the root at \<^verbatim>\<open>WARNING\<close>, one file handler at \<^verbatim>\<open>ERROR\<close>\<close>
  "scenario_d =
     YMap [(''version'', YInt 1),
           (''handlers'',
              YMap [(''console'', YMap [(''class'', YStr ''logging.StreamHandler''),
                                         (''level'', YStr ''WARNING'')]),
                    (''logfile'', YMap [(''class'', YStr ''logging.FileHandler''),
                                         (''filename'', YStr ''pymcuprog.log''),
                                         (''level'', YStr ''ERROR'')])]),
           (''root'', YMap [(''level'', YStr ''WARNING''),
                             (''handlers'', YSeq [YStr ''console'', YStr ''logfile''])])]"

subsection \<open>The entry point\<close>

text \<open>
  Of \<^verbatim>\<open>main\<close>, the declaration of the positional argument \<^verbatim>\<open>action\<close> (lines 188
  to 197), which reads the raw argument list, and the call of the engine (lines
  311 to 316). The rest of the function declares options with no logic of its
  own.
\<close>

record positional =
  nargs :: "string option"
  default_value :: string
  choices :: "string list"

definition action_argument :: "string list \<Rightarrow> positional" where
  "action_argument argv =
     \<lparr>nargs = (if ''-V'' \<in> set argv \<or> ''--version'' \<in> set argv
                \<or> ''-R'' \<in> set argv \<or> ''--release-info'' \<in> set argv
               then Some ''?'' else None),
      default_value = ''ping'',
      choices = [''ping'', ''erase'', ''read'', ''write'', ''verify'', ''getvoltage'',
                 ''getsupplyvoltage'', ''reboot-debugger'', ''setsupplyvoltage'',
                 ''getusbvoltage'', ''reset'']\<rparr>"

datatype usage_error = UsageError

definition bind_positional :: "positional \<Rightarrow> string option \<Rightarrow> usage_error + string" where
  \<comment> \<open>what \<^verbatim>\<open>argparse\<close> does with a positional of \<^verbatim>\<open>nargs\<close> \<^verbatim>\<open>None\<close> or \<^verbatim>\<open>'?'\<close>, given
      the token left for it if any: with no token, the default when \<^verbatim>\<open>nargs\<close> is
      \<^verbatim>\<open>'?'\<close> and a usage error otherwise; the value must be among the choices\<close>
  "bind_positional p token =
     (case token of
        Some t \<Rightarrow> if t \<in> set (choices p) then Inr t else Inl UsageError
      | None \<Rightarrow>
          if nargs p = Some ''?'' \<and> default_value p \<in> set (choices p)
          then Inr (default_value p)
          else Inl UsageError)"

text \<open>
  An exception raised by the engine: the name of its class, its text, and whether
  its class derives from \<^verbatim>\<open>Exception\<close> (\<^verbatim>\<open>KeyboardInterrupt\<close>, \<^verbatim>\<open>SystemExit\<close>
  and \<^verbatim>\<open>GeneratorExit\<close> do not).
\<close>

record exception =
  type_name :: string
  message :: string
  is_Exception :: bool

datatype 'r outcome = Returns 'r | Raises exception

datatype log_call =
    LogError string
  | LogDebug string bool

definition call_engine :: "'r outcome \<Rightarrow> log_call list \<times> (exception + 'r option)" where
  \<comment> \<open>lines 311 to 316: the calls made on the logger, and what \<^verbatim>\<open>main\<close> returns
      (\<open>None\<close> after the handler) or the exception that leaves it; the flag of
      \<open>LogDebug\<close> is \<^verbatim>\<open>exc_info\<close>\<close>
  "call_engine engine =
     (case engine of
        Returns r \<Rightarrow> ([], Inr (Some r))
      | Raises exc \<Rightarrow>
          if is_Exception exc then
            ([LogError (''Operation failed with '' @ type_name exc @ '': '' @ message exc),
              LogDebug (message exc) True],
             Inr None)
          else ([], Inl exc))"

section \<open>Properties of the literal parsers\<close>

subsection \<open>Segments of a token\<close>

lemma py_split_no_sep: "sep \<notin> set s \<Longrightarrow> py_split sep s = [s]"
  by (induction s) auto

lemma py_split_first: "sep \<notin> set a \<Longrightarrow> py_split sep (a @ sep # r) = a # py_split sep r"
  by (induction a) auto

lemma py_split_not_Nil: "py_split sep s \<noteq> []"
  by (induction s) (auto split: list.splits)

lemma hd_py_split: "hd (py_split sep s) = takeWhile (\<lambda>c. c \<noteq> sep) s"
  by (induction s) (auto simp: py_split_not_Nil split: list.splits)

lemma takeWhile_upto_sep: "sep \<notin> set a \<Longrightarrow> takeWhile (\<lambda>c. c \<noteq> sep) (a @ sep # r) = a"
  by (induction a) auto

lemma dropWhile_upto_sep: "sep \<notin> set a \<Longrightarrow> dropWhile (\<lambda>c. c \<noteq> sep) (a @ sep # r) = sep # r"
  by (induction a) auto

lemma take2_py_split:
  assumes "sep \<in> set s"
  shows "take 2 (py_split sep s) =
         [takeWhile (\<lambda>c. c \<noteq> sep) s,
          takeWhile (\<lambda>c. c \<noteq> sep) (tl (dropWhile (\<lambda>c. c \<noteq> sep) s))]"
proof -
  from assms obtain a rest where s: "s = a @ sep # rest" and a: "sep \<notin> set a"
    by (auto dest: split_list_first)
  obtain b r where br: "py_split sep rest = b # r"
    using py_split_not_Nil [of sep rest] by (cases "py_split sep rest") auto
  have b: "b = takeWhile (\<lambda>c. c \<noteq> sep) rest"
    using hd_py_split [of sep rest] br by simp
  have tw: "takeWhile (\<lambda>c. c \<noteq> sep) s = a"
    using a by (simp add: s takeWhile_upto_sep)
  have dw: "dropWhile (\<lambda>c. c \<noteq> sep) s = sep # rest"
    using a by (simp add: s dropWhile_upto_sep)
  show ?thesis
    by (simp add: tw dw b) (simp add: s a py_split_first br b)
qed

subsection \<open>An integer literal holds no colon\<close>

lemma py_isspace_colon: "\<not> py_isspace CHR '':''"
  by (simp add: py_isspace_def)

lemma digit_value_colon: "digit_value CHR '':'' = 37"
  by (simp add: digit_value_def)

lemma colon_dropWhile_space:
  "CHR '':'' \<in> set s \<Longrightarrow> CHR '':'' \<in> set (dropWhile py_isspace s)"
  by (induction s) (auto simp: py_isspace_colon)

lemma colon_skip_sign:
  "CHR '':'' \<in> set s \<Longrightarrow> CHR '':'' \<in> set (snd (skip_sign s))"
  by (cases s) (auto simp: skip_sign_def)

lemma detect_base_prefix:
  "detect_base s = (b, True, z) \<Longrightarrow> \<exists>c1 r. s = CHR ''0'' # c1 # r \<and> c1 \<noteq> CHR '':''"
  by (cases s; cases "tl s") (auto simp: detect_base_def split: if_splits)

lemma detect_base_le: "detect_base s = (b, hp, z) \<Longrightarrow> b \<le> 36"
  by (cases s; cases "tl s") (auto simp: detect_base_def split: if_splits)

lemma colon_skip_prefix:
  assumes "detect_base s = (b, hp, z)" and "CHR '':'' \<in> set s"
  shows "CHR '':'' \<in> set (skip_prefix hp s)"
proof (cases hp)
  case False
  then show ?thesis using assms by (simp add: skip_prefix_def)
next
  case True
  from assms(1) True have "detect_base s = (b, True, z)" by simp
  then obtain c1 r where s: "s = CHR ''0'' # c1 # r" and c1: "c1 \<noteq> CHR '':''"
    using detect_base_prefix by blast
  with assms(2) have "CHR '':'' \<in> set r" by auto
  then show ?thesis using True s by (cases r) (auto simp: skip_prefix_def)
qed

lemma scan_digits_rest:
  "scan_digits base prev s acc = Some (ds, rest) \<Longrightarrow> base \<le> 36 \<Longrightarrow>
   CHR '':'' \<in> set s \<Longrightarrow> CHR '':'' \<in> set rest"
proof (induction base prev s acc rule: scan_digits.induct)
  case (1 base prev acc)
  then show ?case by simp
next
  case (2 base prev c cs acc)
  show ?case
  proof (cases "c = CHR '':''")
    case True
    with 2(3,4) show ?thesis by (auto simp: digit_value_colon split: if_splits)
  next
    case False
    with 2 show ?thesis by (auto split: if_splits)
  qed
qed

lemma py_int0_no_colon:
  assumes "py_int0 s = Some n"
  shows "CHR '':'' \<notin> set s"
proof
  assume c: "CHR '':'' \<in> set s"
  obtain neg s1 where ss: "skip_sign (dropWhile py_isspace s) = (neg, s1)"
    by (cases "skip_sign (dropWhile py_isspace s)")
  obtain b hp z where db: "detect_base s1 = (b, hp, z)"
    by (cases "detect_base s1")
  have c1: "CHR '':'' \<in> set s1"
    using colon_skip_sign [OF colon_dropWhile_space [OF c]] ss by simp
  have c2: "CHR '':'' \<in> set (skip_prefix hp s1)"
    by (rule colon_skip_prefix [OF db c1])
  from assms ss db obtain ds rest where
    sc: "scan_digits b (CHR 0x00) (skip_prefix hp s1) [] = Some (ds, rest)"
    and dr: "dropWhile py_isspace rest = []"
    by (auto simp: py_int0_def Let_def split: if_splits option.splits)
  have "CHR '':'' \<in> set rest"
    by (rule scan_digits_rest [OF sc detect_base_le [OF db] c2])
  then have "CHR '':'' \<in> set (dropWhile py_isspace rest)"
    by (rule colon_dropWhile_space)
  then have "CHR '':'' \<in> set ([] :: string)" unfolding dr .
  then show False by simp
qed

subsection \<open>Evaluations used below\<close>

lemma int0_0x10: "py_int0 ''0x10'' = Some 16"
  by code_simp

lemma int0_4: "py_int0 ''4'' = Some 4"
  by code_simp

lemma int0_1: "py_int0 ''1'' = Some 1"
  by code_simp

lemma int0_2: "py_int0 ''2'' = Some 2"
  by code_simp

lemma int0_3_5: "py_int0 ''3.5'' = None"
  by code_simp

lemma int0_abc: "py_int0 ''abc'' = None"
  by code_simp

lemma float_3_5: "fraction_float ''3.5'' = Some (35, 1)"
  by code_simp

lemma float_4: "fraction_float ''4'' = Some (4, 0)"
  by code_simp

lemma float_abc: "fraction_float ''abc'' = None"
  by code_simp

subsection \<open>The claims on the parsers\<close>

text \<open>
  C3. On a token with no colon, \<open>parse_literal\<close> returns the integer that
  \<^verbatim>\<open>int(token, 0)\<close> reads when it reads one (an integer literal holds no colon, so
  this needs no hypothesis); when it reads none, the float that \<^verbatim>\<open>float\<close>
  reads; and when that reads none either, it fails with \<^verbatim>\<open>ValueError\<close>.
\<close>

theorem parse_literal_scalar:
  "(\<forall>n. py_int0 t = Some n \<longrightarrow> parse_literal pyfloat t = Inr (Scalar (PyInt n))) \<and>
   (\<forall>f. CHR '':'' \<notin> set t \<and> py_int0 t = None \<and> pyfloat t = Some f \<longrightarrow>
        parse_literal pyfloat t = Inr (Scalar (PyFloat f))) \<and>
   (CHR '':'' \<notin> set t \<and> py_int0 t = None \<and> pyfloat t = None \<longrightarrow>
        parse_literal pyfloat t = Inl ValueError)"
  using py_int0_no_colon [of t] by (auto simp: parse_literal_def)

theorem parse_literal_scalar_witness:
  "parse_literal fraction_float ''0x10'' = Inr (Scalar (PyInt 16)) \<and>
   parse_literal fraction_float ''3.5'' = Inr (Scalar (PyFloat (35, 1))) \<and>
   parse_literal fraction_float ''abc'' = Inl ValueError"
  using parse_literal_scalar [of "''0x10''" fraction_float]
    parse_literal_scalar [of "''3.5''" fraction_float]
    parse_literal_scalar [of "''abc''" fraction_float]
  by (simp add: int0_0x10 int0_3_5 int0_abc float_3_5 float_abc)

text \<open>
  C4. On a token \<^verbatim>\<open>a:b\<close> whose two parts are integer literals, \<open>parse_literal\<close>
  returns the list of the two integers, in this order.
\<close>

theorem parse_literal_pair:
  assumes "py_int0 a = Some x" and "py_int0 b = Some y"
  shows "parse_literal pyfloat (a @ '':'' @ b) = Inr (PyList [PyInt x, PyInt y])"
proof -
  have a: "CHR '':'' \<notin> set a" and b: "CHR '':'' \<notin> set b"
    using assms py_int0_no_colon by blast+
  have "py_split CHR '':'' (a @ '':'' @ b) = [a, b]"
    using a b by (simp add: py_split_first py_split_no_sep)
  then show ?thesis using assms by (simp add: parse_literal_def)
qed

theorem parse_literal_pair_witness:
  "parse_literal fraction_float ''4:0x10'' = Inr (PyList [PyInt 4, PyInt 16])"
  using parse_literal_pair [OF int0_4 int0_0x10, of fraction_float] by simp

text \<open>
  C5. On a token with a colon, \<open>parse_direct\<close> takes the first two segments
  \<open>a\<close> and \<open>b\<close>. When both are integer literals it returns the two integers.
  In every other case, also when only one of them is no integer literal, it
  reads both as floats: it returns the two floats when both are float literals,
  and fails with \<^verbatim>\<open>ValueError\<close> otherwise.
\<close>

theorem parse_direct_colon:
  assumes "CHR '':'' \<in> set t"
  shows "\<exists>a b. a = takeWhile (\<lambda>c. c \<noteq> CHR '':'') t \<and>
               b = takeWhile (\<lambda>c. c \<noteq> CHR '':'') (tl (dropWhile (\<lambda>c. c \<noteq> CHR '':'') t)) \<and>
               parse_direct pyfloat t =
                 (case (py_int0 a, py_int0 b) of
                    (Some x, Some y) \<Rightarrow> Inr (PyList [PyInt x, PyInt y])
                  | _ \<Rightarrow>
                      (case (pyfloat a, pyfloat b) of
                         (Some f, Some g) \<Rightarrow> Inr (PyList [PyFloat f, PyFloat g])
                       | _ \<Rightarrow> Inl ValueError))"
  using assms
  by (simp add: parse_direct_def take2_py_split split: option.splits)

theorem parse_direct_colon_witness:
  "parse_direct fraction_float ''4:0x10'' = Inr (PyList [PyInt 4, PyInt 16]) \<and>
   parse_direct fraction_float ''3.5:4'' = Inr (PyList [PyFloat (35, 1), PyFloat (4, 0)]) \<and>
   parse_direct fraction_float ''4:abc'' = Inl ValueError"
  using parse_direct_colon [of "''4:0x10''" fraction_float]
    parse_direct_colon [of "''3.5:4''" fraction_float]
    parse_direct_colon [of "''4:abc''" fraction_float]
  by (simp add: int0_4 int0_0x10 int0_3_5 int0_abc float_3_5 float_4 float_abc)

text \<open>
  C6. On a token with no colon, \<open>parse_direct\<close> raises nothing and returns
  Python's \<^verbatim>\<open>None\<close>, whatever the token is.
\<close>

theorem parse_direct_no_colon:
  "CHR '':'' \<notin> set t \<Longrightarrow> parse_direct pyfloat t = Inr PyNone"
  by (simp add: parse_direct_def)

theorem parse_direct_no_colon_witness:
  "parse_direct fraction_float ''0x10'' = Inr PyNone \<and>
   parse_direct fraction_float ''abc'' = Inr PyNone"
  using parse_direct_no_colon [of "''0x10''" fraction_float]
    parse_direct_no_colon [of "''abc''" fraction_float]
  by simp

text \<open>
  C9. A token with two or more colons is split at every colon and only the first
  two segments are read: whatever follows the second colon changes nothing, for
  both parsers. So \<^verbatim>\<open>1:2:3\<close> gives \<^verbatim>\<open>[1, 2]\<close>.
\<close>

theorem later_segments_discarded:
  assumes "CHR '':'' \<notin> set a" and "CHR '':'' \<notin> set b"
  shows "parse_literal pyfloat (a @ '':'' @ b @ '':'' @ rest) = parse_literal pyfloat (a @ '':'' @ b) \<and>
         parse_direct pyfloat (a @ '':'' @ b @ '':'' @ rest) = parse_direct pyfloat (a @ '':'' @ b) \<and>
         take 2 (py_split CHR '':'' (a @ '':'' @ b @ '':'' @ rest)) = [a, b]"
proof -
  have 1: "take 2 (py_split CHR '':'' (a @ '':'' @ b @ '':'' @ rest)) = [a, b]"
    using assms by (simp add: py_split_first)
  have 2: "take 2 (py_split CHR '':'' (a @ '':'' @ b)) = [a, b]"
    using assms by (simp add: py_split_first py_split_no_sep)
  show ?thesis
    unfolding parse_literal_def parse_direct_def 1 2 by simp
qed

theorem later_segments_discarded_witness:
  "parse_literal fraction_float ''1:2:3'' = Inr (PyList [PyInt 1, PyInt 2]) \<and>
   parse_direct fraction_float ''1:2:3'' = Inr (PyList [PyInt 1, PyInt 2])"
proof -
  have "parse_literal fraction_float ''1:2'' = Inr (PyList [PyInt 1, PyInt 2])"
    by (simp add: parse_literal_def int0_1 int0_2)
  moreover have "parse_direct fraction_float ''1:2'' = Inr (PyList [PyInt 1, PyInt 2])"
    by (simp add: parse_direct_def int0_1 int0_2)
  ultimately show ?thesis
    using later_segments_discarded [of "''1''" "''2''" fraction_float "''3''"] by simp
qed

text \<open>
  C10. On a token with a colon, when one of the first two segments is no integer
  literal, \<open>parse_literal\<close> fails with \<^verbatim>\<open>ValueError\<close>, also when both segments
  are float literals; on the same token \<open>parse_direct\<close> returns the two
  floats.
\<close>

theorem parse_literal_no_float_fallback:
  assumes "CHR '':'' \<in> set t"
    and "a = takeWhile (\<lambda>c. c \<noteq> CHR '':'') t"
    and "b = takeWhile (\<lambda>c. c \<noteq> CHR '':'') (tl (dropWhile (\<lambda>c. c \<noteq> CHR '':'') t))"
    and "py_int0 a = None \<or> py_int0 b = None"
  shows "parse_literal pyfloat t = Inl ValueError \<and>
         (\<forall>f g. pyfloat a = Some f \<and> pyfloat b = Some g \<longrightarrow>
            parse_direct pyfloat t = Inr (PyList [PyFloat f, PyFloat g]))"
  using assms
  by (auto simp: parse_literal_def parse_direct_def take2_py_split split: option.splits)

theorem parse_literal_no_float_fallback_witness:
  "parse_literal fraction_float ''3.5:4'' = Inl ValueError \<and>
   parse_direct fraction_float ''3.5:4'' = Inr (PyList [PyFloat (35, 1), PyFloat (4, 0)])"
  using parse_literal_no_float_fallback [of "''3.5:4''" "''3.5''" "''4''" fraction_float]
  by (simp add: int0_3_5 float_3_5 float_4)

section \<open>Properties of the entry point\<close>

text \<open>
  C7, as the code has it. An exception of the engine whose class derives from
  \<^verbatim>\<open>Exception\<close> is caught: \<^verbatim>\<open>main\<close> logs it at error severity with the name of
  its class and its text, logs it again at debug severity with \<^verbatim>\<open>exc_info\<close> set,
  and returns \<^verbatim>\<open>None\<close>.
\<close>

theorem engine_Exception_caught:
  "is_Exception exc \<Longrightarrow>
   call_engine (Raises exc) =
     ([LogError (''Operation failed with '' @ type_name exc @ '': '' @ message exc),
       LogDebug (message exc) True],
      Inr None)"
  by (simp add: call_engine_def)

theorem engine_Exception_caught_witness:
  "call_engine (Raises \<lparr>type_name = ''PymcuprogError'', message = ''no tool'', is_Exception = True\<rparr>) =
     ([LogError ''Operation failed with PymcuprogError: no tool'', LogDebug ''no tool'' True],
      Inr None)"
  using engine_Exception_caught
    [of "\<lparr>type_name = ''PymcuprogError'', message = ''no tool'', is_Exception = True\<rparr>"]
  by simp

text \<open>
  An exception outside \<^verbatim>\<open>Exception\<close> is not caught by \<^verbatim>\<open>except Exception\<close>: a
  \<^verbatim>\<open>KeyboardInterrupt\<close> raised while the engine runs leaves \<^verbatim>\<open>main\<close>, and
  nothing is logged.
\<close>

theorem engine_interrupt_propagates:
  "call_engine (Raises \<lparr>type_name = ''KeyboardInterrupt'', message = [], is_Exception = False\<rparr>
                 :: unit outcome) =
     ([], Inl \<lparr>type_name = ''KeyboardInterrupt'', message = [], is_Exception = False\<rparr>)"
  by (simp add: call_engine_def)

text \<open>
  So does every exception outside \<^verbatim>\<open>Exception\<close>: it leaves \<^verbatim>\<open>main\<close> with nothing
  logged.
\<close>

lemma engine_non_Exception_propagates:
  "\<not> is_Exception exc \<Longrightarrow> call_engine (Raises exc) = ([], Inl exc)"
  by (simp add: call_engine_def)

text \<open>
  C8. The positional \<^verbatim>\<open>action\<close> is declared with \<^verbatim>\<open>nargs\<close> \<^verbatim>\<open>'?'\<close> exactly when
  one of the raw arguments is \<^verbatim>\<open>-V\<close>, \<^verbatim>\<open>--version\<close>, \<^verbatim>\<open>-R\<close> or
  \<^verbatim>\<open>--release-info\<close>, and with \<^verbatim>\<open>nargs\<close> \<^verbatim>\<open>None\<close> otherwise; its default is
  \<^verbatim>\<open>ping\<close>. So with no token for it, the action is \<^verbatim>\<open>ping\<close> in the first case
  and a usage error in the second.
\<close>

theorem action_optional_iff:
  "(nargs (action_argument argv) = Some ''?'' \<longleftrightarrow>
      ''-V'' \<in> set argv \<or> ''--version'' \<in> set argv \<or> ''-R'' \<in> set argv \<or> ''--release-info'' \<in> set argv) \<and>
   (nargs (action_argument argv) = None \<longleftrightarrow>
      \<not> (''-V'' \<in> set argv \<or> ''--version'' \<in> set argv \<or> ''-R'' \<in> set argv \<or> ''--release-info'' \<in> set argv)) \<and>
   default_value (action_argument argv) = ''ping'' \<and>
   bind_positional (action_argument argv) None =
     (if ''-V'' \<in> set argv \<or> ''--version'' \<in> set argv \<or> ''-R'' \<in> set argv \<or> ''--release-info'' \<in> set argv
      then Inr ''ping'' else Inl UsageError)"
  by (simp add: action_argument_def bind_positional_def)

theorem action_optional_iff_witness:
  "bind_positional (action_argument [''pymcuprog'', ''-V'']) None = Inr ''ping'' \<and>
   bind_positional (action_argument [''pymcuprog'', ''-d'', ''atmega4809'']) None = Inl UsageError \<and>
   nargs (action_argument [''pymcuprog'', ''--release-info'']) = Some ''?'' \<and>
   nargs (action_argument [''pymcuprog'', ''erase'']) = None"
  using action_optional_iff [of "[''pymcuprog'', ''-V'']"]
    action_optional_iff [of "[''pymcuprog'', ''-d'', ''atmega4809'']"]
    action_optional_iff [of "[''pymcuprog'', ''--release-info'']"]
    action_optional_iff [of "[''pymcuprog'', ''erase'']"]
  by auto

section \<open>Properties of the logging bootstrap\<close>

lemmas setup_logging_defs =
  setup_logging_def config_path_def shipped_env_def on_exception_def basic_logging_def
  with_block_def reconcile_def and_then_def subscript_def dict_keys_def setitem_def
  rewrite_filename_def lower_to_handler_def level_of_def join_filename_def
  logging_levels_def quoted_def Let_def
  logging_config_dictConfig_def configure_handler_def handler_kwargs_def configure_root_def
  check_level_def

subsection \<open>The failures that are handled, and the ones that are not\<close>

text \<open>
  A missing file, a \<^verbatim>\<open>ScannerError\<close> of the loader and a \<^verbatim>\<open>KeyError\<close> anywhere
  in the \<^verbatim>\<open>try\<close> block end in the basic configuration at the requested level,
  after a diagnostic.
\<close>

lemma setup_logging_missing_file:
  "\<not> path_exists e (config_path e dp ek) \<Longrightarrow>
   setup_logging e lvl dp ek =
     basic_logging [''Unable to open logging config file '' @ quoted (config_path e dp ek)] [] lvl"
  by (simp add: setup_logging_def)

lemma setup_logging_scanner_error:
  "path_exists e (config_path e dp ek) \<Longrightarrow> load_yaml e (config_path e dp ek) = Inl ScannerError \<Longrightarrow>
   setup_logging e lvl dp ek =
     basic_logging [''Error parsing logging config file '' @ quoted (config_path e dp ek)] [] lvl"
  by (simp add: setup_logging_def on_exception_def)

lemma setup_logging_key_error:
  "path_exists e (config_path e dp ek) \<Longrightarrow> load_yaml e (config_path e dp ek) = Inr cfg \<Longrightarrow>
   with_block e lvl cfg = (dirs, Inl (KeyError k)) \<Longrightarrow>
   setup_logging e lvl dp ek =
     basic_logging [''Key '' @ quoted k @ '' not found in logging config file''] dirs lvl"
  by (simp add: setup_logging_def on_exception_def)

text \<open>
  A document that \<^verbatim>\<open>dictConfig\<close> refuses, here for its missing version, ends the
  same way as any exception other than the two that are caught: the
  \<^verbatim>\<open>ValueError\<close> leaves the function.
\<close>

lemma setup_logging_no_version:
  "setup_logging
     (shipped_env (Inr (YMap [(''handlers'',
                        YMap [(''console'', YMap [(''class'', YStr ''logging.StreamHandler''),
                                                   (''level'', YStr ''WARNING'')])]),
                      (''root'', YMap [(''level'', YStr ''WARNING'')])])))
     30 ''logging.yaml'' ''MICROCHIP_PYTHONTOOLS_CONFIG'' =
     \<lparr>raised = Some ValueError, printed = [], made_dirs = [], active = None\<rparr>"
  by (simp add: setup_logging_defs)

text \<open>
  C1 fails on the code. With the shipped file present and empty, the loader
  returns \<^verbatim>\<open>None\<close>, \<^verbatim>\<open>configfile['handlers']\<close> raises \<^verbatim>\<open>TypeError\<close>, no clause
  catches it, and it reaches the caller with no configuration active and nothing
  printed. The same holds for a document the parser of the loader refuses with
  \<^verbatim>\<open>ParserError\<close>, a sibling of \<^verbatim>\<open>ScannerError\<close>.
\<close>

theorem setup_logging_raises:
  "setup_logging (shipped_env (Inr YNull)) 30 ''logging.yaml'' ''MICROCHIP_PYTHONTOOLS_CONFIG'' =
     \<lparr>raised = Some TypeError, printed = [], made_dirs = [], active = None\<rparr> \<and>
   setup_logging (shipped_env (Inl (OtherError ''ParserError''))) 30 ''logging.yaml''
       ''MICROCHIP_PYTHONTOOLS_CONFIG'' =
     \<lparr>raised = Some (OtherError ''ParserError''), printed = [], made_dirs = [], active = None\<rparr>"
  by (simp add: setup_logging_defs)

subsection \<open>The root level\<close>

text \<open>
  C2 fails on the code: the root level is to be at most the level of every
  handler (the code's comment on line 63 has it the most verbose of all the
  configurations of the file), and the second loop lowers it for the handlers
  with a file name only. With version 1, a second stream handler declared at
  \<^verbatim>\<open>DEBUG\<close> (10), the root at \<^verbatim>\<open>WARNING\<close> and \<^verbatim>\<open>WARNING\<close> (30) requested,
  the bootstrap succeeds, the document is accepted by \<^verbatim>\<open>dictConfig\<close>, and the
  root level is 30, above the 10 of the second handler, which therefore never
  sees a record below \<^verbatim>\<open>WARNING\<close>.
\<close>

theorem other_handler_below_root:
  "setup_logging (shipped_env (Inr two_stream_handlers)) 30 ''logging.yaml''
       ''MICROCHIP_PYTHONTOOLS_CONFIG'' =
     \<lparr>raised = None, printed = [], made_dirs = [],
      active = Some (DictConfig
         (YMap [(''version'', YInt 1),
                (''handlers'',
              YMap [(''console'', YMap [(''class'', YStr ''logging.StreamHandler''),
                                         (''level'', YInt 30)]),
                    (''stderr'', YMap [(''class'', YStr ''logging.StreamHandler''),
                                        (''level'', YStr ''DEBUG'')])]),
           (''root'', YMap [(''level'', YInt 30),
                             (''handlers'', YSeq [YStr ''console'', YStr ''stderr''])])]))\<rparr> \<and>
   yaml_at two_stream_handlers [''handlers'', ''stderr'', ''level''] = Some (YStr ''DEBUG'') \<and>
   logging_levels ''DEBUG'' = Inr 10 \<and> \<not> (30 \<le> (10::int))"
  by (simp add: setup_logging_defs two_stream_handlers_def)

subsection \<open>Dictionaries and the two loops\<close>

text \<open>
  Assignment to a key, and what the loop over the handlers that rewrites the
  file names keeps: the handler names, and for each handler whether it is a file
  handler and its declared level.
\<close>

lemma map_of_assign: "map_of (assign k v m) = (map_of m)(k \<mapsto> v)"
  by (induction m) (auto simp: fun_eq_iff)

lemma keys_assign_present: "k \<in> fst ` set m \<Longrightarrow> map fst (assign k v m) = map fst m"
  by (induction m) auto

lemma set_keys_assign: "fst ` set (assign k v m) = insert k (fst ` set m)"
  by (induction m) auto

lemma is_file_handler_keys:
  "is_file_handler hv \<longleftrightarrow> (\<exists>ks. dict_keys hv = Inr ks \<and> ''filename'' \<in> set ks)"
  by (cases hv) (auto simp: is_file_handler_def dict_keys_def)

lemma same_handler_refl: "same_handler v v"
  by (simp add: same_handler_def)

lemma same_handler_trans: "same_handler a b \<Longrightarrow> same_handler b c \<Longrightarrow> same_handler a c"
  by (simp add: same_handler_def)

lemma same_handler_filename:
  "setitem h ''filename'' x = Inr h' \<Longrightarrow> is_file_handler h \<Longrightarrow> same_handler h h'"
  by (cases h)
     (auto simp: setitem_def same_handler_def is_file_handler_def subscript_def
        map_of_assign set_keys_assign)

lemma rewrite_filename_step:
  assumes "rewrite_filename j d h (YMap M, n) = Inr (H1, n1)"
  shows "\<exists>M1. H1 = YMap M1 \<and> map fst M1 = map fst M \<and>
           (\<forall>k. rel_option same_handler (map_of M k) (map_of M1 k))"
proof -
  from assms obtain hv where hv: "map_of M h = Some hv"
    by (auto simp: rewrite_filename_def and_then_def subscript_def split: option.splits)
  show ?thesis
  proof (cases "is_file_handler hv")
    case False
    with assms hv have "H1 = YMap M"
      by (auto simp: rewrite_filename_def and_then_def subscript_def is_file_handler_keys
          split: sum.splits if_splits)
    then show ?thesis
      by (auto simp: option.rel_refl same_handler_refl)
  next
    case True
    with assms hv obtain x hv' where set: "setitem hv ''filename'' x = Inr hv'"
      and H1: "H1 = YMap (assign h hv' M)"
      by (auto simp: rewrite_filename_def and_then_def subscript_def is_file_handler_keys
          setitem_def split: sum.splits if_splits yaml.splits)
    have sh: "same_handler hv hv'" by (rule same_handler_filename [OF set True])
    have "h \<in> fst ` set M" using hv by (auto dest!: map_of_SomeD intro: rev_image_eqI)
    then have keys: "map fst (assign h hv' M) = map fst M" by (rule keys_assign_present)
    have "rel_option same_handler (map_of M k) (map_of (assign h hv' M) k)" for k
      using hv sh by (cases "k = h") (auto simp: map_of_assign option.rel_refl same_handler_refl)
    then show ?thesis using H1 keys by blast
  qed
qed

lemma rel_option_same_trans:
  "rel_option same_handler a b \<Longrightarrow> rel_option same_handler b c \<Longrightarrow> rel_option same_handler a c"
  by (cases a; cases b; cases c) (auto intro: same_handler_trans)

lemma first_loop:
  "for_each names (rewrite_filename j d) (YMap M, n) = Inr (H1, n1) \<Longrightarrow>
   \<exists>M1. H1 = YMap M1 \<and> map fst M1 = map fst M \<and>
        (\<forall>k. rel_option same_handler (map_of M k) (map_of M1 k))"
proof (induction names arbitrary: M n)
  case Nil
  then show ?case by (auto simp: option.rel_refl same_handler_refl)
next
  case (Cons h names)
  from Cons.prems obtain H' n' where
    st: "rewrite_filename j d h (YMap M, n) = Inr (H', n')"
    and rest: "for_each names (rewrite_filename j d) (H', n') = Inr (H1, n1)"
    by (auto split: sum.splits)
  from rewrite_filename_step [OF st] obtain M' where
    M': "H' = YMap M'" "map fst M' = map fst M"
      "\<forall>k. rel_option same_handler (map_of M k) (map_of M' k)" by blast
  from Cons.IH [OF rest [unfolded M'(1)]] obtain M1 where
    M1: "H1 = YMap M1" "map fst M1 = map fst M'"
      "\<forall>k. rel_option same_handler (map_of M' k) (map_of M1 k)" by blast
  show ?case using M' M1 by (auto intro: rel_option_same_trans)
qed

lemma lower_to_handler_step:
  assumes "lower_to_handler ga H h m0 = Inr m1"
  shows "\<exists>hv. subscript H h = Inr hv \<and>
           (if is_file_handler hv
            then \<exists>lv l. subscript hv ''level'' = Inr lv \<and> level_of ga lv = Inr l \<and> m1 = min m0 l
            else m1 = m0)"
  using assms
  by (auto simp: lower_to_handler_def and_then_def is_file_handler_keys
      split: sum.splits if_splits)

lemma second_loop_le:
  "for_each names (lower_to_handler ga H) m0 = Inr m \<Longrightarrow> m \<le> m0"
proof (induction names arbitrary: m0)
  case Nil
  then show ?case by simp
next
  case (Cons h names)
  from Cons.prems obtain m1 where st: "lower_to_handler ga H h m0 = Inr m1"
    and rest: "for_each names (lower_to_handler ga H) m1 = Inr m"
    by (auto split: sum.splits)
  from lower_to_handler_step [OF st] have "m1 \<le> m0"
    by (auto split: if_splits)
  with Cons.IH [OF rest] show ?case by simp
qed

lemma second_loop_bound:
  "for_each names (lower_to_handler ga H) m0 = Inr m \<Longrightarrow> h \<in> set names \<Longrightarrow>
   subscript H h = Inr hv \<Longrightarrow> is_file_handler hv \<Longrightarrow>
   \<exists>lv l. subscript hv ''level'' = Inr lv \<and> level_of ga lv = Inr l \<and> m \<le> l"
proof (induction names arbitrary: m0)
  case Nil
  then show ?case by simp
next
  case (Cons k names)
  from Cons.prems(1) obtain m1 where st: "lower_to_handler ga H k m0 = Inr m1"
    and rest: "for_each names (lower_to_handler ga H) m1 = Inr m"
    by (auto split: sum.splits)
  show ?case
  proof (cases "h \<in> set names")
    case True
    from Cons.IH [OF rest True Cons.prems(3,4)] show ?thesis .
  next
    case False
    with Cons.prems(2) have "k = h" by simp
    with lower_to_handler_step [OF st] Cons.prems(3,4)
    obtain lv l where lv: "subscript hv ''level'' = Inr lv" "level_of ga lv = Inr l"
      "m1 = min m0 l" by auto
    from second_loop_le [OF rest] lv(3) have "m \<le> l" by simp
    with lv show ?thesis by blast
  qed
qed

lemma second_loop_attained:
  "for_each names (lower_to_handler ga H) m0 = Inr m \<Longrightarrow>
   m = m0 \<or> (\<exists>h hv lv. h \<in> set names \<and> subscript H h = Inr hv \<and> is_file_handler hv \<and>
                subscript hv ''level'' = Inr lv \<and> level_of ga lv = Inr m)"
proof (induction names arbitrary: m0)
  case Nil
  then show ?case by simp
next
  case (Cons k names)
  from Cons.prems(1) obtain m1 where st: "lower_to_handler ga H k m0 = Inr m1"
    and rest: "for_each names (lower_to_handler ga H) m1 = Inr m"
    by (auto split: sum.splits)
  from Cons.IH [OF rest] consider "m = m1"
    | "\<exists>h hv lv. h \<in> set names \<and> subscript H h = Inr hv \<and> is_file_handler hv \<and>
                subscript hv ''level'' = Inr lv \<and> level_of ga lv = Inr m" by blast
  then show ?case
  proof cases
    case 1
    from lower_to_handler_step [OF st] obtain hv where hv: "subscript H k = Inr hv"
      and c: "if is_file_handler hv
            then \<exists>lv l. subscript hv ''level'' = Inr lv \<and> level_of ga lv = Inr l \<and> m1 = min m0 l
            else m1 = m0" by blast
    show ?thesis
    proof (cases "m1 = m0")
      case True
      with 1 show ?thesis by simp
    next
      case False
      with c obtain lv l where fh: "is_file_handler hv" and
        lv: "subscript hv ''level'' = Inr lv" "level_of ga lv = Inr l" "m1 = min m0 l"
        by (auto split: if_splits)
      from False lv(3) have "m1 = l" by (simp add: min_def split: if_splits)
      with 1 hv fh lv show ?thesis by auto
    qed
  next
    case 2
    then show ?thesis by auto
  qed
qed


lemma subscript_Inr:
  "subscript v k = Inr x \<Longrightarrow> \<exists>m. v = YMap m \<and> map_of m k = Some x"
  by (cases v) (auto simp: subscript_def split: option.splits)

lemma setitem_Inr:
  "setitem v k x = Inr v' \<Longrightarrow> \<exists>m. v = YMap m \<and> v' = YMap (assign k x m)"
  by (cases v) (auto simp: setitem_def)

lemma dict_keys_Inr:
  "dict_keys v = Inr ks \<Longrightarrow> \<exists>m. v = YMap m \<and> ks = map fst m"
  by (cases v) (auto simp: dict_keys_def)

lemma subscript_yaml_at: "subscript v k = Inr x \<Longrightarrow> yaml_at v [k] = Some x"
  by (cases v) (auto simp: subscript_def split: option.splits)

lemma level_of_YInt: "level_of ga (YInt i) \<noteq> Inr l"
  by (simp add: level_of_def)

lemma active_on_exception: "active (on_exception p d l ex) \<noteq> Some (DictConfig r)"
  by (cases ex) (simp_all add: on_exception_def basic_logging_def)

lemma setup_logging_success:
  assumes "active (setup_logging e lvl dp ek) = Some (DictConfig resolved)"
  shows "\<exists>cfg dirs. load_yaml e (config_path e dp ek) = Inr cfg \<and>
           with_block e lvl cfg = (dirs, Inr resolved)"
  using assms
  by (auto simp: setup_logging_def Let_def basic_logging_def active_on_exception
      split: if_splits sum.splits prod.splits option.splits)

lemma with_block_success:
  assumes "with_block e lvl cfg = (dirs, Inr resolved)"
  shows "\<exists>H0 names H1 n. subscript cfg ''handlers'' = Inr H0 \<and> dict_keys H0 = Inr names \<and>
           for_each names (rewrite_filename (path_join e) (user_log_dir e)) (H0, 0) = Inr (H1, n) \<and>
           reconcile e lvl cfg H1 = Inr resolved"
  using assms
  by (auto simp: with_block_def Let_def and_then_def
      split: sum.splits prod.splits if_splits option.splits)

lemma reconcile_success:
  assumes "reconcile e lvl cfg H1 = Inr resolved"
  shows "\<exists>console console' H2 root l root_level names m root' cfg1.
           subscript H1 ''console'' = Inr console \<and>
           setitem console ''level'' (YInt lvl) = Inr console' \<and>
           setitem H1 ''console'' console' = Inr H2 \<and>
           subscript cfg ''root'' = Inr root \<and>
           subscript root ''level'' = Inr l \<and>
           level_of (getattr_logging e) l = Inr root_level \<and>
           dict_keys H2 = Inr names \<and>
           for_each names (lower_to_handler (getattr_logging e) H2) (min lvl root_level) = Inr m \<and>
           setitem root ''level'' (YInt m) = Inr root' \<and>
           setitem cfg ''handlers'' H2 = Inr cfg1 \<and>
           setitem cfg1 ''root'' root' = Inr resolved"
  using assms
  by (auto simp: reconcile_def and_then_def split: sum.splits)

subsection \<open>A successful bootstrap\<close>

text \<open>
  The document that is activated, from the one that was loaded.
\<close>

lemma resolved_shape:
  assumes fl: "for_each names (rewrite_filename j d) (YMap M0, n0) = Inr (H1, n)"
    and rs: "reconcile e lvl (YMap C) H1 = Inr resolved"
    and hs: "map_of C ''handlers'' = Some (YMap M0)"
  shows "\<exists>rl root_level m.
     yaml_at (YMap C) [''root'', ''level''] = Some rl \<and>
     level_of (getattr_logging e) rl = Inr root_level \<and>
     yaml_at resolved [''handlers'', ''console'', ''level''] = Some (YInt lvl) \<and>
     yaml_at resolved [''root'', ''level''] = Some (YInt m) \<and>
     m \<le> lvl \<and> m \<le> root_level \<and>
     (\<forall>h hv. map_of M0 h = Some hv \<and> is_file_handler hv \<longrightarrow>
        (\<exists>lv l. yaml_at hv [''level''] = Some lv \<and>
                level_of (getattr_logging e) lv = Inr l \<and> m \<le> l)) \<and>
     (m = lvl \<or> m = root_level \<or>
        (\<exists>h hv lv. map_of M0 h = Some hv \<and> is_file_handler hv \<and>
           yaml_at hv [''level''] = Some lv \<and> level_of (getattr_logging e) lv = Inr m))"
proof -
  let ?ga = "getattr_logging e"
  from first_loop [OF fl] obtain M1 where H1: "H1 = YMap M1"
    and rel: "\<And>k. rel_option same_handler (map_of M0 k) (map_of M1 k)" by blast
  from reconcile_success [OF rs] obtain console console' H2 root l root_level names2 m root' cfg1
    where a: "subscript H1 ''console'' = Inr console"
      "setitem console ''level'' (YInt lvl) = Inr console'"
      "setitem H1 ''console'' console' = Inr H2"
      "subscript (YMap C) ''root'' = Inr root"
      "subscript root ''level'' = Inr l"
      "level_of ?ga l = Inr root_level"
      "dict_keys H2 = Inr names2"
      "for_each names2 (lower_to_handler ?ga H2) (min lvl root_level) = Inr m"
      "setitem root ''level'' (YInt m) = Inr root'"
      "setitem (YMap C) ''handlers'' H2 = Inr cfg1"
      "setitem cfg1 ''root'' root' = Inr resolved" by blast
  from a(1) H1 have con: "map_of M1 ''console'' = Some console"
    by (auto dest: subscript_Inr)
  from a(2) obtain cm where cm: "console = YMap cm" "console' = YMap (assign ''level'' (YInt lvl) cm)"
    by (auto dest: setitem_Inr)
  from a(3) H1 have H2: "H2 = YMap (assign ''console'' console' M1)"
    by (auto dest: setitem_Inr)
  from a(7) H2 have names2: "names2 = map fst (assign ''console'' console' M1)"
    by (auto dest: dict_keys_Inr)
  from a(4) have root: "map_of C ''root'' = Some root"
    by (auto dest: subscript_Inr)
  from a(5) obtain rm where rm: "root = YMap rm" "map_of rm ''level'' = Some l"
    by (auto dest: subscript_Inr)
  from a(9) rm have root': "root' = YMap (assign ''level'' (YInt m) rm)"
    by (auto dest: setitem_Inr)
  from a(10) have cfg1: "cfg1 = YMap (assign ''handlers'' H2 C)"
    by (auto dest: setitem_Inr)
  from a(11) cfg1 have res: "resolved = YMap (assign ''root'' root' (assign ''handlers'' H2 C))"
    by (auto dest: setitem_Inr)
  have p1: "yaml_at (YMap C) [''root'', ''level''] = Some l"
    using root rm by simp
  have p3: "yaml_at resolved [''handlers'', ''console'', ''level''] = Some (YInt lvl)"
    by (simp add: res H2 cm map_of_assign)
  have p4: "yaml_at resolved [''root'', ''level''] = Some (YInt m)"
    by (simp add: res root' map_of_assign)
  from second_loop_le [OF a(8)] have p5: "m \<le> lvl" "m \<le> root_level" by simp_all
  have sub_console: "subscript H2 ''console'' = Inr console'"
    by (simp add: H2 subscript_def map_of_assign)
  have sub_other: "subscript H2 h = (case map_of M1 h of None \<Rightarrow> Inl (KeyError h) | Some x \<Rightarrow> Inr x)"
    if "h \<noteq> ''console''" for h
    using that by (simp add: H2 subscript_def map_of_assign)
  have console'_level: "subscript console' ''level'' = Inr (YInt lvl)"
    by (simp add: cm subscript_def map_of_assign)
  have p6: "\<exists>lv l. yaml_at hv [''level''] = Some lv \<and> level_of ?ga lv = Inr l \<and> m \<le> l"
    if hv: "map_of M0 h = Some hv" and fh: "is_file_handler hv" for h hv
  proof -
    from rel [of h] hv obtain hv1 where hv1: "map_of M1 h = Some hv1" "same_handler hv hv1"
      by (auto simp: option_rel_Some1)
    from hv1(2) fh have fh1: "is_file_handler hv1"
      and lev: "subscript hv1 ''level'' = subscript hv ''level''"
      by (simp_all add: same_handler_def)
    from hv1(1) have "h \<in> fst ` set M1" by (auto dest!: map_of_SomeD intro: rev_image_eqI)
    then have mem: "h \<in> set names2" by (simp add: names2 set_keys_assign)
    show ?thesis
    proof (cases "h = ''console''")
      case True
      with hv1(1) con have "hv1 = console" by simp
      with fh1 cm have "is_file_handler console'"
        by (simp add: is_file_handler_def set_keys_assign)
      from second_loop_bound [OF a(8) _ sub_console this] mem True console'_level
      show ?thesis by (auto simp: level_of_YInt)
    next
      case False
      then have "subscript H2 h = Inr hv1" using hv1(1) by (simp add: sub_other)
      from second_loop_bound [OF a(8) mem this fh1] lev
      obtain lv l where "subscript hv ''level'' = Inr lv" "level_of ?ga lv = Inr l" "m \<le> l"
        by auto
      then show ?thesis by (auto dest: subscript_yaml_at)
    qed
  qed
  have p7: "m = lvl \<or> m = root_level \<or>
        (\<exists>h hv lv. map_of M0 h = Some hv \<and> is_file_handler hv \<and>
           yaml_at hv [''level''] = Some lv \<and> level_of ?ga lv = Inr m)"
  proof (cases "m = min lvl root_level")
    case True
    then show ?thesis by (auto simp: min_def)
  next
    case False
    with second_loop_attained [OF a(8)] obtain h hv2 lv where
      b: "h \<in> set names2" "subscript H2 h = Inr hv2" "is_file_handler hv2"
        "subscript hv2 ''level'' = Inr lv" "level_of ?ga lv = Inr m" by blast
    have ne: "h \<noteq> ''console''"
    proof
      assume "h = ''console''"
      with b(2) sub_console have "hv2 = console'" by simp
      with b(4) console'_level have "lv = YInt lvl" by simp
      with b(5) show False by (simp add: level_of_YInt)
    qed
    with b(2) have m1: "map_of M1 h = Some hv2"
      by (auto simp: sub_other split: option.splits)
    with rel [of h] obtain hv where hv: "map_of M0 h = Some hv" "same_handler hv hv2"
      by (auto simp: option_rel_Some2)
    from hv(2) b(3,4) have "is_file_handler hv" "subscript hv ''level'' = Inr lv"
      by (simp_all add: same_handler_def)
    with hv(1) b(5) show ?thesis by (auto dest: subscript_yaml_at)
  qed
  from p1 a(6) p3 p4 p5 p6 p7 show ?thesis by blast
qed

text \<open>
  What does hold of the root level. When the bootstrap activates the resolved
  document, the level of the console handler in it is the requested level, and
  the level of the root logger is a number \<open>m\<close> that is at most the requested
  level, at most the declared level of the root logger, and at most the declared
  level of every handler with a file name; and \<open>m\<close> is one of these levels, so
  it is their minimum. The handlers without a file name are not among them.
\<close>

theorem root_level_most_verbose:
  assumes "active (setup_logging e lvl dp ek) = Some (DictConfig resolved)"
  shows "\<exists>cfg rl root_level m.
     load_yaml e (config_path e dp ek) = Inr cfg \<and>
     yaml_at cfg [''root'', ''level''] = Some rl \<and>
     level_of (getattr_logging e) rl = Inr root_level \<and>
     yaml_at resolved [''handlers'', ''console'', ''level''] = Some (YInt lvl) \<and>
     yaml_at resolved [''root'', ''level''] = Some (YInt m) \<and>
     m \<le> lvl \<and> m \<le> root_level \<and>
     (\<forall>h hv. yaml_at cfg [''handlers'', h] = Some hv \<and> is_file_handler hv \<longrightarrow>
        (\<exists>lv l. yaml_at hv [''level''] = Some lv \<and>
                level_of (getattr_logging e) lv = Inr l \<and> m \<le> l)) \<and>
     (m = lvl \<or> m = root_level \<or>
        (\<exists>h hv lv. yaml_at cfg [''handlers'', h] = Some hv \<and> is_file_handler hv \<and>
           yaml_at hv [''level''] = Some lv \<and> level_of (getattr_logging e) lv = Inr m))"
proof -
  from setup_logging_success [OF assms] obtain cfg dirs where
    ld: "load_yaml e (config_path e dp ek) = Inr cfg"
    and wb: "with_block e lvl cfg = (dirs, Inr resolved)" by blast
  from with_block_success [OF wb] obtain H0 names H1 n where
    b: "subscript cfg ''handlers'' = Inr H0" "dict_keys H0 = Inr names"
      "for_each names (rewrite_filename (path_join e) (user_log_dir e)) (H0, 0) = Inr (H1, n)"
      "reconcile e lvl cfg H1 = Inr resolved" by blast
  from b(1) obtain C where C: "cfg = YMap C" "map_of C ''handlers'' = Some H0"
    by (auto dest: subscript_Inr)
  from b(2) obtain M0 where M0: "H0 = YMap M0" by (auto dest: dict_keys_Inr)
  have at: "yaml_at cfg [''handlers'', h] = map_of M0 h" for h
    by (simp add: C M0 split: option.splits)
  have "\<exists>rl root_level m.
     yaml_at cfg [''root'', ''level''] = Some rl \<and>
     level_of (getattr_logging e) rl = Inr root_level \<and>
     yaml_at resolved [''handlers'', ''console'', ''level''] = Some (YInt lvl) \<and>
     yaml_at resolved [''root'', ''level''] = Some (YInt m) \<and>
     m \<le> lvl \<and> m \<le> root_level \<and>
     (\<forall>h hv. yaml_at cfg [''handlers'', h] = Some hv \<and> is_file_handler hv \<longrightarrow>
        (\<exists>lv l. yaml_at hv [''level''] = Some lv \<and>
                level_of (getattr_logging e) lv = Inr l \<and> m \<le> l)) \<and>
     (m = lvl \<or> m = root_level \<or>
        (\<exists>h hv lv. yaml_at cfg [''handlers'', h] = Some hv \<and> is_file_handler hv \<and>
           yaml_at hv [''level''] = Some lv \<and> level_of (getattr_logging e) lv = Inr m))"
    unfolding at
    using resolved_shape [OF b(3) [unfolded M0] b(4) [unfolded C(1)] C(2) [unfolded M0]]
    unfolding C(1) [symmetric] .
  with ld show ?thesis by - (rule exI [of _ cfg], simp del: yaml_at.simps)
qed

text \<open>
  On the document with one file handler at \<^verbatim>\<open>ERROR\<close> and the root at
  \<^verbatim>\<open>WARNING\<close>, with \<^verbatim>\<open>INFO\<close> (20) requested: the root level is 20 and the
  file name is redirected to the log directory.
\<close>

theorem root_level_most_verbose_witness:
  "active (setup_logging (shipped_env (Inr scenario_d)) 20 ''logging.yaml''
             ''MICROCHIP_PYTHONTOOLS_CONFIG'')
     = Some (DictConfig
         (YMap [(''version'', YInt 1),
                (''handlers'',
              YMap [(''console'', YMap [(''class'', YStr ''logging.StreamHandler''),
                                         (''level'', YInt 20)]),
                    (''logfile'', YMap [(''class'', YStr ''logging.FileHandler''),
                                         (''filename'', YStr ''/log/pymcuprog.log''),
                                         (''level'', YStr ''ERROR'')])]),
           (''root'', YMap [(''level'', YInt 20),
                             (''handlers'', YSeq [YStr ''console'', YStr ''logfile''])])])) \<and>
   (\<exists>m. yaml_at (YMap [(''version'', YInt 1),
                (''handlers'',
              YMap [(''console'', YMap [(''class'', YStr ''logging.StreamHandler''),
                                         (''level'', YInt 20)]),
                    (''logfile'', YMap [(''class'', YStr ''logging.FileHandler''),
                                         (''filename'', YStr ''/log/pymcuprog.log''),
                                         (''level'', YStr ''ERROR'')])]),
           (''root'', YMap [(''level'', YInt 20),
                             (''handlers'', YSeq [YStr ''console'', YStr ''logfile''])])])
          [''root'', ''level''] = Some (YInt m) \<and>
        m \<le> 20 \<and> m \<le> 30 \<and> m \<le> 40)"
proof -
  have a: "active (setup_logging (shipped_env (Inr scenario_d)) 20 ''logging.yaml''
             ''MICROCHIP_PYTHONTOOLS_CONFIG'')
     = Some (DictConfig
         (YMap [(''version'', YInt 1),
                (''handlers'',
              YMap [(''console'', YMap [(''class'', YStr ''logging.StreamHandler''),
                                         (''level'', YInt 20)]),
                    (''logfile'', YMap [(''class'', YStr ''logging.FileHandler''),
                                         (''filename'', YStr ''/log/pymcuprog.log''),
                                         (''level'', YStr ''ERROR'')])]),
           (''root'', YMap [(''level'', YInt 20),
                             (''handlers'', YSeq [YStr ''console'', YStr ''logfile''])])]))"
    by (simp add: setup_logging_defs scenario_d_def)
  from root_level_most_verbose [OF a] a show ?thesis
    by (simp add: setup_logging_defs scenario_d_def)
qed

end
